theory Spec2Isabelle
  imports Main "HOL-Library.Word"
begin

section \<open>Constants of cshell.c\<close>

definition ARGSMAX :: nat where "ARGSMAX = 10"
definition OPTSMAX :: nat where "OPTSMAX = 10"
definition MAX_PATH_LEN :: nat where "MAX_PATH_LEN = 50000"

definition CMD_CD :: string where "CMD_CD = ''cd''"
definition CMD_EXIT :: string where "CMD_EXIT = ''exit''"
definition PARALLEL_TOK :: string where "PARALLEL_TOK = ''&&''"
definition SEQUENTIAL_TOK :: string where "SEQUENTIAL_TOK = ''##''"
definition REDIRECTION_TOK :: string where "REDIRECTION_TOK = ''>''"
definition PIPELINE_TOK :: string where "PIPELINE_TOK = ''|''"

definition ERR_GETCWD :: string where
  "ERR_GETCWD = ''Error: Current working directory was not found'' @ [CHR 0x0A]"
definition ERR_CHDIR :: string where
  "ERR_CHDIR = ''Error: Was not able to change directory'' @ [CHR 0x0A]"
definition ERR_FORK :: string where
  "ERR_FORK = ''Error: Frok failed.'' @ [CHR 0x0A]"

definition EXIT_SUCCESS :: int where "EXIT_SUCCESS = 0"
definition EXIT_FAILURE :: int where "EXIT_FAILURE = 1"

section \<open>The command frame and the directive\<close>

text \<open>
  A pointer to a string is an option (\<open>None\<close> is the null pointer). A pointer to a
  block that \<open>malloc\<close> returns is null, the live block with its contents, or the address
  of a block already passed to \<open>free\<close>.
\<close>

datatype 'a block = Null | Block 'a | Freed

text \<open>
  The struct \<open>_xcmf\<close>. The bucket \<open>_Args\<close> is a block of \<open>ARGSMAX\<close> pointers; the model
  keeps the list of the slots written so far, slot \<open>i\<close> being element \<open>i\<close> (a slot holds
  the copy of a token, or null when the copy could not be allocated), and the counter
  beside it as the 8-bit integer it is in the source. The same holds for \<open>_Opts\<close>.
\<close>

record xcmf =
  Command :: "string option"
  Cmf_Len :: "8 word"
  Args :: "string option list block"
  Arg_Cnt :: "8 word"
  Opts :: "string option list block"
  Opt_Cnt :: "8 word"
  redirection_file :: "string option"

datatype execution_directive_t =
  INIT | PARALLEL | SEQUENTIAL | TERMINATED | PIPELINE | EXCEPTION

text \<open>
  What C leaves undefined is a value of the model: a store past the end of a bucket, a
  \<open>free\<close> of a pointer that is not a live block of \<open>malloc\<close>, a read or write through a
  pointer that is null or not set, a call of \<open>getline\<close> on a pointer into the middle of
  a block.
\<close>

datatype fault = ArgsOverflow | OptsOverflow | InvalidFree | NullDeref | InvalidGetline

definition null_xcmf :: xcmf where
  "null_xcmf = \<lparr>Command = None, Cmf_Len = 0, Args = Null, Arg_Cnt = 0,
                Opts = Null, Opt_Cnt = 0, redirection_file = None\<rparr>"

section \<open>Allocation\<close>

text \<open>
  The allocations of one call of \<open>parseInput\<close>, by the place that makes them: the copy
  of the command token (\<open>strdup\<close>), the two buckets (\<open>malloc\<close>), the copy of the token
  stored in slot \<open>i\<close> of a bucket (\<open>strdup\<close>), the block of the command cut at an embedded
  \<open>>\<close> (\<open>malloc\<close>), and the copy of the redirection file found there (\<open>strdup\<close>). Each
  place allocates at most once in a call. The environment of a call is the list of
  the places whose allocation fails.
\<close>

datatype alloc_site =
    Copy_command
  | Block_args
  | Block_opts
  | Copy_arg nat
  | Copy_opt nat
  | Cut_command
  | Copy_redirection

definition allocated :: "alloc_site list \<Rightarrow> alloc_site \<Rightarrow> bool" where
  "allocated failing site \<longleftrightarrow> site \<notin> set failing"

definition strdup :: "alloc_site list \<Rightarrow> alloc_site \<Rightarrow> string \<Rightarrow> string option" where
  "strdup failing site str = (if allocated failing site then Some str else None)"

section \<open>The cursor tokenizer\<close>

text \<open>
  \<open>strsep(&line, " ")\<close>: the cursor is the remaining line, or null. The token is the text
  before the first space and the cursor moves past that space; with no space left the
  whole remainder is the token and the cursor becomes null; on a null cursor there is no
  token. The result is the token and the new cursor.
\<close>

definition strsep :: "string option \<Rightarrow> string option \<times> string option" where
  "strsep cur =
     (case cur of
        None \<Rightarrow> (None, None)
      | Some s \<Rightarrow>
          if CHR '' '' \<in> set s
          then (Some (takeWhile (\<lambda>c. c \<noteq> CHR '' '') s),
                Some (tl (dropWhile (\<lambda>c. c \<noteq> CHR '' '') s)))
          else (Some s, None))"

definition cursor_size :: "string option \<Rightarrow> nat" where
  "cursor_size cur = (case cur of None \<Rightarrow> 0 | Some s \<Rightarrow> Suc (length s))"

section \<open>The frame parser\<close>

text \<open>\<open>cmd->_Args[cmd->_Arg_Cnt++] = strdup(token)\<close>, on a block of \<open>ARGSMAX\<close> slots.\<close>

definition store_arg :: "alloc_site list \<Rightarrow> string \<Rightarrow> xcmf \<Rightarrow> fault + xcmf" where
  "store_arg failing token cmd =
     (case Args cmd of
        Block slots \<Rightarrow>
          if unat (Arg_Cnt cmd) < ARGSMAX
          then Inr (cmd\<lparr>Args := Block (take (unat (Arg_Cnt cmd)) slots
                                         @ [strdup failing (Copy_arg (unat (Arg_Cnt cmd))) token]),
                        Arg_Cnt := Arg_Cnt cmd + 1\<rparr>)
          else Inl ArgsOverflow
      | Null \<Rightarrow> Inl NullDeref
      | Freed \<Rightarrow> Inl NullDeref)"

text \<open>\<open>cmd->_Opts[cmd->_Opt_Cnt++] = strdup(token)\<close>, on a block of \<open>OPTSMAX\<close> slots.\<close>

definition store_opt :: "alloc_site list \<Rightarrow> string \<Rightarrow> xcmf \<Rightarrow> fault + xcmf" where
  "store_opt failing token cmd =
     (case Opts cmd of
        Block slots \<Rightarrow>
          if unat (Opt_Cnt cmd) < OPTSMAX
          then Inr (cmd\<lparr>Opts := Block (take (unat (Opt_Cnt cmd)) slots
                                         @ [strdup failing (Copy_opt (unat (Opt_Cnt cmd))) token]),
                        Opt_Cnt := Opt_Cnt cmd + 1\<rparr>)
          else Inl OptsOverflow
      | Null \<Rightarrow> Inl NullDeref
      | Freed \<Rightarrow> Inl NullDeref)"

text \<open>
  The end of \<open>parseInput\<close>, after the token loop: the command is scanned for an embedded
  \<open>>\<close>. At the first one the command is cut (into a new block, written without a check
  of \<open>malloc\<close>), and what follows the \<open>>\<close>, unless empty, is copied as the redirection
  file; when that copy cannot be allocated the directive is \<open>EXCEPTION\<close>, otherwise it is
  \<open>TERMINATED\<close>. \<open>_Cmf_Len\<close> is left as it was. The scan reads the command, so a null
  command is a fault.
\<close>

definition scan_command ::
  "alloc_site list \<Rightarrow> xcmf \<Rightarrow> fault + (execution_directive_t \<times> xcmf)" where
  "scan_command failing cmd =
     (case Command cmd of
        None \<Rightarrow> Inl NullDeref
      | Some c \<Rightarrow>
          if CHR ''>'' \<in> set c
          then (if \<not> allocated failing Cut_command then Inl NullDeref
                else (let ptr = tl (dropWhile (\<lambda>x. x \<noteq> CHR ''>'') c);
                          cmd1 = cmd\<lparr>Command := Some (takeWhile (\<lambda>x. x \<noteq> CHR ''>'') c)\<rparr>
                      in if ptr \<noteq> []
                         then (case strdup failing Copy_redirection ptr of
                                 None \<Rightarrow> Inr (EXCEPTION, cmd1\<lparr>redirection_file := None\<rparr>)
                               | Some file \<Rightarrow>
                                   Inr (TERMINATED, cmd1\<lparr>redirection_file := Some file\<rparr>))
                         else Inr (TERMINATED, cmd1)))
          else Inr (TERMINATED, cmd))"

lemma tl_dropWhile_le: "length (tl (dropWhile P xs)) \<le> length xs"
proof -
  have "length (tl (dropWhile P xs)) \<le> length (dropWhile P xs)" by simp
  also have "\<dots> \<le> length xs" by (rule length_dropWhile_le)
  finally show ?thesis .
qed

lemma tl_dropWhile_less: "xs \<noteq> [] \<Longrightarrow> length (tl (dropWhile P xs)) < length xs"
proof (cases "dropWhile P xs")
  case Nil
  assume "xs \<noteq> []"
  then have "0 < length xs" by simp
  then show ?thesis unfolding Nil by simp
next
  case (Cons y ys)
  have "length (dropWhile P xs) \<le> length xs" by (rule length_dropWhile_le)
  with Cons show ?thesis by simp
qed

lemma strsep_token_smaller:
  assumes "strsep cur = (Some token, cur1)"
  shows "cursor_size cur1 < cursor_size cur"
proof (cases cur)
  case None
  with assms show ?thesis by (simp add: strsep_def)
next
  case (Some s)
  show ?thesis
  proof (cases "CHR '' '' \<in> set s")
    case True
    then have "s \<noteq> []" by auto
    then have "length (tl (dropWhile (\<lambda>c. c \<noteq> CHR '' '') s)) < length s"
      by (rule tl_dropWhile_less)
    with assms Some True show ?thesis
      by (auto simp: strsep_def cursor_size_def)
  next
    case False
    with assms Some show ?thesis by (auto simp: strsep_def cursor_size_def)
  qed
qed

lemma strsep_not_larger:
  assumes "strsep cur = (tok, cur1)"
  shows "cursor_size cur1 \<le> cursor_size cur"
proof (cases cur)
  case None
  with assms show ?thesis by (auto simp: strsep_def cursor_size_def)
next
  case (Some s)
  have "length (tl (dropWhile (\<lambda>c. c \<noteq> CHR '' '') s)) \<le> length s"
    by (rule tl_dropWhile_le)
  with assms Some show ?thesis
    by (auto simp: strsep_def cursor_size_def split: if_splits)
qed

text \<open>
  The token loop of \<open>parseInput\<close> (\<open>while ((token = strsep(_command, " ")) != null)\<close>)
  together with what follows it. A control operator returns at once and leaves the rest
  of the line in the cursor. The redirection operator is stored as an argument, a
  redirection file already set is freed (it is a pointer into the line buffer, set by
  an earlier \<open>>\<close> of this loop, so that \<open>free\<close> is invalid), and the next token becomes
  the redirection file. When the tokens run out the command is scanned. The result is
  the directive, the frame and the cursor.
\<close>

function parse_tokens ::
  "alloc_site list \<Rightarrow> xcmf \<Rightarrow> string option \<Rightarrow>
   fault + (execution_directive_t \<times> xcmf \<times> string option)" where
  "parse_tokens failing cmd cur =
     (case strsep cur of
        (None, cur1) \<Rightarrow>
          (case scan_command failing cmd of
             Inl e \<Rightarrow> Inl e
           | Inr (directive, cmd1) \<Rightarrow> Inr (directive, cmd1, cur1))
      | (Some token, cur1) \<Rightarrow>
          if token = PARALLEL_TOK then Inr (PARALLEL, cmd, cur1)
          else if token = SEQUENTIAL_TOK then Inr (SEQUENTIAL, cmd, cur1)
          else if token = PIPELINE_TOK then Inr (PIPELINE, cmd, cur1)
          else if token = REDIRECTION_TOK then
            (case store_arg failing token cmd of
               Inl e \<Rightarrow> Inl e
             | Inr cmd1 \<Rightarrow>
                 if redirection_file cmd1 \<noteq> None then Inl InvalidFree
                 else (case strsep cur1 of
                         (target, cur2) \<Rightarrow>
                           parse_tokens failing (cmd1\<lparr>redirection_file := target\<rparr>) cur2))
          else if take 1 token = ''-'' then
            (case store_opt failing token cmd of
               Inl e \<Rightarrow> Inl e
             | Inr cmd1 \<Rightarrow> parse_tokens failing cmd1 cur1)
          else
            (case store_arg failing token cmd of
               Inl e \<Rightarrow> Inl e
             | Inr cmd1 \<Rightarrow> parse_tokens failing cmd1 cur1))"
  by pat_completeness auto
termination
proof (relation "measure (\<lambda>(failing, cmd, cur). cursor_size cur)", goal_cases)
  case 1
  show ?case by simp
next
  case (2 failing cmd cur tok cur1 token cmd1 target cur2)
  then have "cursor_size cur1 < cursor_size cur" "cursor_size cur2 \<le> cursor_size cur1"
    using strsep_token_smaller [of cur token cur1] strsep_not_larger [of cur1 target cur2]
    by simp_all
  then show ?case by simp
next
  case (3 failing cmd cur tok cur1 token cmd1)
  then show ?case using strsep_token_smaller [of cur token cur1] by simp
next
  case (4 failing cmd cur tok cur1 token cmd1)
  then show ?case using strsep_token_smaller [of cur token cur1] by simp
qed

declare parse_tokens.simps [simp del]

text \<open>
  \<open>malloc\<close> of a bucket: a block with no slot written yet, or null.
\<close>

definition malloc_bucket :: "alloc_site list \<Rightarrow> alloc_site \<Rightarrow> string option list block" where
  "malloc_bucket failing site = (if allocated failing site then Block [] else Null)"

text \<open>
  \<open>parseInput\<close>. Every field is cleared first. A null cursor gives \<open>EXCEPTION\<close>. The
  first token is copied as the command (the copy is not checked) and \<open>_Cmf_Len\<close> is
  the length of the token cut to 8 bits. Both buckets are allocated; when one of the
  two pointers is null both are passed to \<open>free\<close> and the directive is \<open>EXCEPTION\<close>,
  with the command already set and the pointers left in the frame.
\<close>

definition parseInput ::
  "alloc_site list \<Rightarrow> string option \<Rightarrow>
   fault + (execution_directive_t \<times> xcmf \<times> string option)" where
  "parseInput failing command =
     (if command = None then Inr (EXCEPTION, null_xcmf, command)
      else (case strsep command of
              (None, cur) \<Rightarrow> Inr (EXCEPTION, null_xcmf, cur)
            | (Some token, cur) \<Rightarrow>
                (let cmd = null_xcmf\<lparr>Command := strdup failing Copy_command token,
                                      Cmf_Len := of_nat (length token),
                                      Args := malloc_bucket failing Block_args,
                                      Opts := malloc_bucket failing Block_opts\<rparr>
                 in if Args cmd = Null \<or> Opts cmd = Null
                    then Inr (EXCEPTION,
                              cmd\<lparr>Args := (if Args cmd = Null then Null else Freed),
                                  Opts := (if Opts cmd = Null then Null else Freed)\<rparr>,
                              cur)
                    else parse_tokens failing cmd cur)))"

text \<open>The directive a control operator stands for.\<close>

definition control_directive :: "string \<Rightarrow> execution_directive_t option" where
  "control_directive token =
     (if token = PARALLEL_TOK then Some PARALLEL
      else if token = SEQUENTIAL_TOK then Some SEQUENTIAL
      else if token = PIPELINE_TOK then Some PIPELINE
      else None)"

lemma tok_distinct:
  "PARALLEL_TOK \<noteq> SEQUENTIAL_TOK" "PARALLEL_TOK \<noteq> PIPELINE_TOK"
  "PARALLEL_TOK \<noteq> REDIRECTION_TOK" "SEQUENTIAL_TOK \<noteq> PIPELINE_TOK"
  "SEQUENTIAL_TOK \<noteq> REDIRECTION_TOK" "PIPELINE_TOK \<noteq> REDIRECTION_TOK"
  "SEQUENTIAL_TOK \<noteq> PARALLEL_TOK" "PIPELINE_TOK \<noteq> PARALLEL_TOK"
  "REDIRECTION_TOK \<noteq> PARALLEL_TOK" "PIPELINE_TOK \<noteq> SEQUENTIAL_TOK"
  "REDIRECTION_TOK \<noteq> SEQUENTIAL_TOK" "REDIRECTION_TOK \<noteq> PIPELINE_TOK"
  by (simp_all add: REDIRECTION_TOK_def PARALLEL_TOK_def SEQUENTIAL_TOK_def PIPELINE_TOK_def)

lemma control_directive_redirection: "control_directive REDIRECTION_TOK = None"
  by (simp add: control_directive_def tok_distinct)

lemma control_directive_Some:
  "control_directive token = Some d \<Longrightarrow> d = PARALLEL \<or> d = SEQUENTIAL \<or> d = PIPELINE"
  by (auto simp: control_directive_def split: if_splits)


lemma parse_tokens_end:
  "strsep cur = (None, c1) \<Longrightarrow>
   parse_tokens failing cmd cur =
     (case scan_command failing cmd of
        Inl e \<Rightarrow> Inl e
      | Inr (directive, cmd1) \<Rightarrow> Inr (directive, cmd1, c1))"
  by (simp add: parse_tokens.simps [of failing cmd cur])

lemma parse_tokens_control:
  "strsep cur = (Some token, c1) \<Longrightarrow> control_directive token = Some d \<Longrightarrow>
   parse_tokens failing cmd cur = Inr (d, cmd, c1)"
  by (auto simp: parse_tokens.simps [of failing cmd cur] control_directive_def tok_distinct
           split: if_splits)

lemma parse_tokens_redirection:
  "strsep cur = (Some REDIRECTION_TOK, c1) \<Longrightarrow> strsep c1 = (target, c2) \<Longrightarrow>
   parse_tokens failing cmd cur =
     (case store_arg failing REDIRECTION_TOK cmd of
        Inl e \<Rightarrow> Inl e
      | Inr cmd1 \<Rightarrow>
          if redirection_file cmd1 \<noteq> None then Inl InvalidFree
          else parse_tokens failing (cmd1\<lparr>redirection_file := target\<rparr>) c2)"
  by (simp add: parse_tokens.simps [of failing cmd cur] tok_distinct split: sum.splits)

lemma parse_tokens_option:
  "strsep cur = (Some token, c1) \<Longrightarrow> control_directive token = None \<Longrightarrow>
   token \<noteq> REDIRECTION_TOK \<Longrightarrow> take 1 token = ''-'' \<Longrightarrow>
   parse_tokens failing cmd cur =
     (case store_opt failing token cmd of
        Inl e \<Rightarrow> Inl e
      | Inr cmd1 \<Rightarrow> parse_tokens failing cmd1 c1)"
  by (simp add: parse_tokens.simps [of failing cmd cur] control_directive_def split: if_splits)

lemma parse_tokens_argument:
  "strsep cur = (Some token, c1) \<Longrightarrow> control_directive token = None \<Longrightarrow>
   token \<noteq> REDIRECTION_TOK \<Longrightarrow> take 1 token \<noteq> ''-'' \<Longrightarrow>
   parse_tokens failing cmd cur =
     (case store_arg failing token cmd of
        Inl e \<Rightarrow> Inl e
      | Inr cmd1 \<Rightarrow> parse_tokens failing cmd1 c1)"
  by (simp add: parse_tokens.simps [of failing cmd cur] control_directive_def split: if_splits)

text \<open>
  Induction over a run of the token loop, whatever its result: the loop ends at the
  scan, returns at a control operator, stops at a fault, or goes on with the frame of
  the next step.
\<close>

lemma parse_tokens_induct
  [case_names End Control Redirection_fault Redirection_free Redirection
              Option_fault Option Argument_fault Argument]:
  assumes End: "\<And>cmd cur c1.
        strsep cur = (None, c1) \<Longrightarrow>
        P cmd cur (case scan_command failing cmd of
                     Inl e \<Rightarrow> Inl e
                   | Inr (directive, cmd1) \<Rightarrow> Inr (directive, cmd1, c1))"
    and Control: "\<And>cmd cur token c1 d.
        strsep cur = (Some token, c1) \<Longrightarrow> control_directive token = Some d \<Longrightarrow>
        P cmd cur (Inr (d, cmd, c1))"
    and Redirection_fault: "\<And>cmd cur c1 e.
        strsep cur = (Some REDIRECTION_TOK, c1) \<Longrightarrow>
        store_arg failing REDIRECTION_TOK cmd = Inl e \<Longrightarrow> P cmd cur (Inl e)"
    and Redirection_free: "\<And>cmd cur c1 cmd1.
        strsep cur = (Some REDIRECTION_TOK, c1) \<Longrightarrow>
        store_arg failing REDIRECTION_TOK cmd = Inr cmd1 \<Longrightarrow>
        redirection_file cmd1 \<noteq> None \<Longrightarrow> P cmd cur (Inl InvalidFree)"
    and Redirection: "\<And>cmd cur c1 cmd1 target c2.
        strsep cur = (Some REDIRECTION_TOK, c1) \<Longrightarrow>
        store_arg failing REDIRECTION_TOK cmd = Inr cmd1 \<Longrightarrow>
        redirection_file cmd1 = None \<Longrightarrow> strsep c1 = (target, c2) \<Longrightarrow>
        P (cmd1\<lparr>redirection_file := target\<rparr>) c2
          (parse_tokens failing (cmd1\<lparr>redirection_file := target\<rparr>) c2) \<Longrightarrow>
        P cmd cur (parse_tokens failing (cmd1\<lparr>redirection_file := target\<rparr>) c2)"
    and Option_fault: "\<And>cmd cur token c1 e.
        strsep cur = (Some token, c1) \<Longrightarrow> control_directive token = None \<Longrightarrow>
        token \<noteq> REDIRECTION_TOK \<Longrightarrow> take 1 token = ''-'' \<Longrightarrow>
        store_opt failing token cmd = Inl e \<Longrightarrow> P cmd cur (Inl e)"
    and Option: "\<And>cmd cur token c1 cmd1.
        strsep cur = (Some token, c1) \<Longrightarrow> control_directive token = None \<Longrightarrow>
        token \<noteq> REDIRECTION_TOK \<Longrightarrow> take 1 token = ''-'' \<Longrightarrow>
        store_opt failing token cmd = Inr cmd1 \<Longrightarrow>
        P cmd1 c1 (parse_tokens failing cmd1 c1) \<Longrightarrow>
        P cmd cur (parse_tokens failing cmd1 c1)"
    and Argument_fault: "\<And>cmd cur token c1 e.
        strsep cur = (Some token, c1) \<Longrightarrow> control_directive token = None \<Longrightarrow>
        token \<noteq> REDIRECTION_TOK \<Longrightarrow> take 1 token \<noteq> ''-'' \<Longrightarrow>
        store_arg failing token cmd = Inl e \<Longrightarrow> P cmd cur (Inl e)"
    and Argument: "\<And>cmd cur token c1 cmd1.
        strsep cur = (Some token, c1) \<Longrightarrow> control_directive token = None \<Longrightarrow>
        token \<noteq> REDIRECTION_TOK \<Longrightarrow> take 1 token \<noteq> ''-'' \<Longrightarrow>
        store_arg failing token cmd = Inr cmd1 \<Longrightarrow>
        P cmd1 c1 (parse_tokens failing cmd1 c1) \<Longrightarrow>
        P cmd cur (parse_tokens failing cmd1 c1)"
  shows "P cmd cur (parse_tokens failing cmd cur)"
proof (induction "cursor_size cur" arbitrary: cmd cur rule: less_induct)
  case less
  obtain tok c1 where sep: "strsep cur = (tok, c1)" by (cases "strsep cur")
  show ?case
  proof (cases tok)
    case None
    with sep End [of cur c1 cmd] show ?thesis by (simp add: parse_tokens_end)
  next
    case (Some token)
    with sep have sep': "strsep cur = (Some token, c1)" by simp
    then have lt: "cursor_size c1 < cursor_size cur" by (rule strsep_token_smaller)
    show ?thesis
    proof (cases "control_directive token")
      case (Some d)
      with sep' Control [of cur token c1 d cmd] show ?thesis
        by (simp add: parse_tokens_control)
    next
      case None
      show ?thesis
      proof (cases "token = REDIRECTION_TOK")
        case True
        obtain target c2 where sep2: "strsep c1 = (target, c2)" by (cases "strsep c1")
        then have "cursor_size c2 \<le> cursor_size c1" by (rule strsep_not_larger)
        with lt have lt2: "cursor_size c2 < cursor_size cur" by simp
        from sep' True have sepr: "strsep cur = (Some REDIRECTION_TOK, c1)" by simp
        show ?thesis
        proof (cases "store_arg failing REDIRECTION_TOK cmd")
          case (Inl e)
          with Redirection_fault [OF sepr Inl] show ?thesis
            by (simp add: parse_tokens_redirection [OF sepr sep2])
        next
          case (Inr cmd1)
          show ?thesis
          proof (cases "redirection_file cmd1 = None")
            case False
            with Redirection_free [OF sepr Inr False] Inr show ?thesis
              by (simp add: parse_tokens_redirection [OF sepr sep2])
          next
            case rf: True
            from Redirection [OF sepr Inr rf sep2 less [OF lt2]] Inr rf show ?thesis
              by (simp add: parse_tokens_redirection [OF sepr sep2])
          qed
        qed
      next
        case False
        show ?thesis
        proof (cases "take 1 token = ''-''")
          case True
          show ?thesis
          proof (cases "store_opt failing token cmd")
            case (Inl e)
            with Option_fault [OF sep' None False True Inl] show ?thesis
              by (simp add: parse_tokens_option [OF sep' None False True])
          next
            case (Inr cmd1)
            with Option [OF sep' None False True Inr less [OF lt]] show ?thesis
              by (simp add: parse_tokens_option [OF sep' None False True])
          qed
        next
          case nopt: False
          show ?thesis
          proof (cases "store_arg failing token cmd")
            case (Inl e)
            with Argument_fault [OF sep' None False nopt Inl] show ?thesis
              by (simp add: parse_tokens_argument [OF sep' None False nopt])
          next
            case (Inr cmd1)
            with Argument [OF sep' None False nopt Inr less [OF lt]] show ?thesis
              by (simp add: parse_tokens_argument [OF sep' None False nopt])
          qed
        qed
      qed
    qed
  qed
qed

lemma parse_tokens_cursor:
  "parse_tokens failing cmd cur = Inr r \<Longrightarrow> cursor_size (snd (snd r)) \<le> cursor_size cur"
proof (induction cmd cur rule: parse_tokens_induct [where failing = failing])
  case (End cmd cur c1)
  then show ?case
    using strsep_not_larger [of cur None c1] by (auto split: sum.splits)
next
  case (Control cmd cur token c1 d)
  then show ?case using strsep_not_larger [of cur "Some token" c1] by auto
next
  case (Redirection cmd cur c1 cmd1 target c2)
  then show ?case
    using strsep_not_larger [of cur "Some REDIRECTION_TOK" c1] strsep_not_larger [of c1 target c2]
    by auto
next
  case (Option cmd cur token c1 cmd1)
  then show ?case using strsep_not_larger [of cur "Some token" c1] by auto
next
  case (Argument cmd cur token c1 cmd1)
  then show ?case using strsep_not_larger [of cur "Some token" c1] by auto
qed simp_all

section \<open>The interpreter process and its environment\<close>

text \<open>
  \<open>fork\<close> returns a negative number, zero in the child, or the child's pid in the
  parent; the model follows one process, the one the answer selects.
\<close>

datatype fork_result = ForkFail | Child | Parent

datatype event =
    Fork fork_result
  | Pipe "(int \<times> int) option"
  | Open_file string int
  | Dup2 int int
  | Close int
  | Chdir string bool
  | Waitpid
  | Wait_all
  | Perror string
  | Printf string
  | Prompt "string option"

text \<open>
  The state of the process. The globals \<open>is_piped\<close> and \<open>_pipe_arr\<close>; the variable
  \<open>line\<close> of \<open>main\<close>, which is the cursor of the parser (\<open>lineptr\<close>: null, or the text it
  points to); the working directory. Then the environment as far as the code asks it:
  whether \<open>getcwd\<close> can name the working directory (it may have been removed), \<open>HOME\<close>,
  the paths \<open>chdir\<close> accepts with the directory each one leads to, for each coming call
  of \<open>parseInput\<close> the allocations that fail in it, and the answers of the coming calls
  of \<open>fork\<close>, \<open>pipe\<close>, \<open>open\<close>, the checked \<open>dup2\<close> and \<open>execvp\<close>. An exhausted list
  answers with success: no failing allocation, the parent's side of \<open>fork\<close>, the
  descriptors 3 and 4. \<open>trace\<close> records the calls made, oldest first.
\<close>

record shell =
  is_piped :: bool
  pipe_arr0 :: int
  pipe_arr1 :: int
  lineptr :: "string option"
  cwd :: string
  cwd_ok :: bool
  home :: "string option"
  dirs :: "(string \<times> string) list"
  heaps :: "alloc_site list list"
  forks :: "fork_result list"
  pipes :: "(int \<times> int) option list"
  opens :: "int list"
  dup2s :: "bool list"
  execs :: "bool list"
  trace :: "event list"

text \<open>
  How a piece of code leaves: it returns to its caller (in the body of the loop of
  \<open>main\<close>: it goes on to the release of the frame), it jumps to the condition of the loop
  by \<open>continue\<close>, it leaves the loop by \<open>break\<close>, the process exits with a status,
  \<open>execvp\<close> replaces the process image (file and argv), or the behaviour is undefined.
\<close>

datatype outcome =
    Running shell
  | Continued shell
  | Broke shell
  | Exited int shell
  | Replaced string "string list" shell
  | Faulted fault shell

definition emit :: "event \<Rightarrow> shell \<Rightarrow> shell" where
  "emit e s = s\<lparr>trace := trace s @ [e]\<rparr>"

definition sys_heap :: "shell \<Rightarrow> alloc_site list \<times> shell" where
  "sys_heap s =
     (case heaps s of
        [] \<Rightarrow> ([], s)
      | failing # rs \<Rightarrow> (failing, s\<lparr>heaps := rs\<rparr>))"

definition sys_fork :: "shell \<Rightarrow> fork_result \<times> shell" where
  "sys_fork s =
     (case forks s of
        [] \<Rightarrow> (Parent, emit (Fork Parent) s)
      | r # rs \<Rightarrow> (r, emit (Fork r) (s\<lparr>forks := rs\<rparr>)))"

definition sys_pipe :: "shell \<Rightarrow> (int \<times> int) option \<times> shell" where
  "sys_pipe s =
     (case pipes s of
        [] \<Rightarrow> (Some (3, 4), emit (Pipe (Some (3, 4))) s)
      | r # rs \<Rightarrow> (r, emit (Pipe r) (s\<lparr>pipes := rs\<rparr>)))"

definition sys_open :: "string \<Rightarrow> shell \<Rightarrow> int \<times> shell" where
  "sys_open path s =
     (case opens s of
        [] \<Rightarrow> (3, emit (Open_file path 3) s)
      | fd # rs \<Rightarrow> (fd, emit (Open_file path fd) (s\<lparr>opens := rs\<rparr>)))"

definition sys_dup2 :: "int \<Rightarrow> int \<Rightarrow> shell \<Rightarrow> bool \<times> shell" where
  "sys_dup2 fd fd2 s =
     (case dup2s s of
        [] \<Rightarrow> (True, emit (Dup2 fd fd2) s)
      | ok # rs \<Rightarrow> (ok, emit (Dup2 fd fd2) (s\<lparr>dup2s := rs\<rparr>)))"

definition sys_execvp :: "shell \<Rightarrow> bool \<times> shell" where
  "sys_execvp s =
     (case execs s of
        [] \<Rightarrow> (True, s)
      | ok # rs \<Rightarrow> (ok, s\<lparr>execs := rs\<rparr>))"

text \<open>
  \<open>getcwd(cwd, sizeof(cwd))\<close>: null when the working directory cannot be named, or
  when the path and its terminator do not fit the buffer.
\<close>

definition sys_getcwd :: "shell \<Rightarrow> string option" where
  "sys_getcwd s =
     (if cwd_ok s \<and> length (cwd s) < MAX_PATH_LEN then Some (cwd s) else None)"

text \<open>\<open>chdir(path)\<close>: true when the directory was changed.\<close>

definition sys_chdir :: "string \<Rightarrow> shell \<Rightarrow> bool \<times> shell" where
  "sys_chdir path s =
     (case map_of (dirs s) path of
        None \<Rightarrow> (False, emit (Chdir path False) s)
      | Some d \<Rightarrow> (True, emit (Chdir path True) (s\<lparr>cwd := d\<rparr>)))"

section \<open>The pipe relay\<close>

definition pipeReset :: "shell \<Rightarrow> shell" where
  "pipeReset s =
     (let s1 = s\<lparr>is_piped := False\<rparr>;
          s2 = (if pipe_arr0 s1 \<noteq> - 1
                then (emit (Close (pipe_arr0 s1)) s1)\<lparr>pipe_arr0 := - 1\<rparr> else s1);
          s3 = (if pipe_arr1 s2 \<noteq> - 1
                then (emit (Close (pipe_arr1 s2)) s2)\<lparr>pipe_arr1 := - 1\<rparr> else s2)
      in s3)"

section \<open>The builtin \<open>cd\<close>\<close>

text \<open>
  \<open>changeDirectory\<close>. Without an argument, or with a first argument whose copy is null,
  the path is \<open>HOME\<close>. Otherwise the working directory is asked for, which can fail
  with a message, and joined with the argument by \<open>snprintf\<close>, which returns the length
  of the joined path; when that does not fit the buffer of \<open>MAX_PATH_LEN\<close> bytes the
  function returns without a call of \<open>chdir\<close> and without a message.
\<close>

definition do_chdir :: "string \<Rightarrow> shell \<Rightarrow> outcome" where
  "do_chdir path s =
     (case sys_chdir path s of
        (True, s1) \<Rightarrow> Running s1
      | (False, s1) \<Rightarrow> Running (emit (Perror ERR_CHDIR) s1))"

definition cd_home :: "shell \<Rightarrow> outcome" where
  "cd_home s = (case home s of None \<Rightarrow> Running s | Some path \<Rightarrow> do_chdir path s)"

definition cd_join :: "string \<Rightarrow> shell \<Rightarrow> outcome" where
  "cd_join suffix s =
     (case sys_getcwd s of
        None \<Rightarrow> Running (emit (Perror ERR_GETCWD) s)
      | Some dir \<Rightarrow>
          (let abs_pth = dir @ ''/'' @ suffix
           in if length abs_pth \<ge> MAX_PATH_LEN then Running s
              else do_chdir abs_pth s))"

definition changeDirectory :: "xcmf \<Rightarrow> shell \<Rightarrow> outcome" where
  "changeDirectory command_frame s =
     (if Arg_Cnt command_frame = 0 then cd_home s
      else (case Args command_frame of
              Block (None # rest) \<Rightarrow> cd_home s
            | Block (Some arg0 # rest) \<Rightarrow>
                if arg0 = ''..'' then cd_join ''..'' s else cd_join arg0 s
            | Block [] \<Rightarrow> Faulted NullDeref s
            | Null \<Rightarrow> Faulted NullDeref s
            | Freed \<Rightarrow> Faulted NullDeref s))"

section \<open>The executors\<close>

text \<open>The first \<open>cnt\<close> slots of a bucket, as the \<open>for\<close> loops over it read them.\<close>

definition bucket ::
  "string option list block \<Rightarrow> 8 word \<Rightarrow> fault + string option list" where
  "bucket slots cnt =
     (if cnt = 0 then Inr []
      else (case slots of
              Block xs \<Rightarrow> if unat cnt \<le> length xs then Inr (take (unat cnt) xs)
                          else Inl NullDeref
            | Null \<Rightarrow> Inl NullDeref
            | Freed \<Rightarrow> Inl NullDeref))"

text \<open>
  The loop of \<open>executeCommand\<close> over the arguments: each one is compared with the
  redirection operator (a null slot is read there), and the loop stops at the first
  one that equals it.
\<close>

fun args_until_redirection :: "string option list \<Rightarrow> fault + string option list" where
  "args_until_redirection [] = Inr []"
| "args_until_redirection (None # rest) = Inl NullDeref"
| "args_until_redirection (Some arg # rest) =
     (if arg = REDIRECTION_TOK then Inr []
      else (case args_until_redirection rest of
              Inl e \<Rightarrow> Inl e
            | Inr argv \<Rightarrow> Inr (Some arg # argv)))"

text \<open>
  The array \<open>argv\<close> of \<open>executeCommand\<close>, before its final null: the command, the
  options, and the arguments up to the first one that equals the redirection operator.
\<close>

definition argv_sync :: "xcmf \<Rightarrow> fault + string option list" where
  "argv_sync command_frame =
     (case bucket (Opts command_frame) (Opt_Cnt command_frame) of
        Inl e \<Rightarrow> Inl e
      | Inr os \<Rightarrow>
          (case bucket (Args command_frame) (Arg_Cnt command_frame) of
             Inl e \<Rightarrow> Inl e
           | Inr as \<Rightarrow>
               (case args_until_redirection as of
                  Inl e \<Rightarrow> Inl e
                | Inr as1 \<Rightarrow> Inr (Command command_frame # os @ as1))))"

text \<open>
  The array \<open>argv\<close> of \<open>executeCommandPipe\<close>, before its final null: the command, the
  options, and every argument.
\<close>

definition argv_pipe :: "xcmf \<Rightarrow> fault + string option list" where
  "argv_pipe command_frame =
     (case bucket (Opts command_frame) (Opt_Cnt command_frame) of
        Inl e \<Rightarrow> Inl e
      | Inr os \<Rightarrow>
          (case bucket (Args command_frame) (Arg_Cnt command_frame) of
             Inl e \<Rightarrow> Inl e
           | Inr as \<Rightarrow> Inr (Command command_frame # os @ as)))"

text \<open>The argument vector as \<open>execvp\<close> reads it: the entries before the first null.\<close>

definition c_argv :: "string option list \<Rightarrow> string list" where
  "c_argv argv = map the (takeWhile (\<lambda>p. p \<noteq> None) argv)"

text \<open>
  \<open>execvp(command_frame._Command, argv)\<close>: the file is read, so a null command is a
  fault; when the call returns it has failed.
\<close>

definition do_execvp :: "xcmf \<Rightarrow> string option list \<Rightarrow> shell \<Rightarrow> outcome + shell" where
  "do_execvp command_frame argv s =
     (case Command command_frame of
        None \<Rightarrow> Inl (Faulted NullDeref s)
      | Some file \<Rightarrow>
          (case sys_execvp s of
             (True, s1) \<Rightarrow> Inl (Replaced file (c_argv argv) s1)
           | (False, s1) \<Rightarrow> Inr s1))"

text \<open>The child of \<open>executeCommand\<close>, from the redirection to \<open>execvp\<close>.\<close>

definition redirect_stdout :: "xcmf \<Rightarrow> shell \<Rightarrow> outcome" where
  "redirect_stdout command_frame s =
     (case redirection_file command_frame of
        None \<Rightarrow> Running s
      | Some file \<Rightarrow>
          (case sys_open file s of
             (fd, s1) \<Rightarrow>
               if fd < 0 then Exited EXIT_FAILURE s1
               else (case sys_dup2 fd 1 s1 of
                       (False, s2) \<Rightarrow> Exited EXIT_FAILURE (emit (Close fd) s2)
                     | (True, s2) \<Rightarrow> Running (emit (Close fd) s2))))"

definition feed_from_pipe :: "shell \<Rightarrow> shell" where
  "feed_from_pipe s =
     (if is_piped s
      then emit (Close (pipe_arr0 s))
             (emit (Dup2 (pipe_arr0 s) 0) (emit (Close (pipe_arr1 s)) s))
      else s)"

definition executeCommand_child :: "xcmf \<Rightarrow> shell \<Rightarrow> outcome" where
  "executeCommand_child command_frame s =
     (case redirect_stdout command_frame s of
        Running s1 \<Rightarrow>
          (case argv_sync command_frame of
             Inl e \<Rightarrow> Faulted e s1
           | Inr argv \<Rightarrow>
               (case do_execvp command_frame argv (feed_from_pipe s1) of
                  Inl left \<Rightarrow> left
                | Inr s2 \<Rightarrow>
                    Exited EXIT_FAILURE
                      (emit (Printf (''Shell: Incorrect command'' @ [CHR 0x0A])) s2)))
      | other \<Rightarrow> other)"

definition executeCommand :: "xcmf \<Rightarrow> shell \<Rightarrow> outcome" where
  "executeCommand command_frame s =
     (if Command command_frame = None \<or> Command command_frame = Some [] then Running s
      else (case sys_fork s of
              (ForkFail, s1) \<Rightarrow> Exited EXIT_FAILURE (emit (Perror ERR_FORK) s1)
            | (Child, s1) \<Rightarrow> executeCommand_child command_frame s1
            | (Parent, s1) \<Rightarrow> Running (pipeReset (emit Waitpid s1))))"

definition executeCommandPipe :: "xcmf \<Rightarrow> shell \<Rightarrow> outcome" where
  "executeCommandPipe command_frame s =
     (case sys_pipe s of
        (None, s1) \<Rightarrow> Exited EXIT_FAILURE s1
      | (Some (rd, wr), s1) \<Rightarrow>
          (case sys_fork (s1\<lparr>pipe_arr0 := rd, pipe_arr1 := wr\<rparr>) of
             (ForkFail, s2) \<Rightarrow> Exited EXIT_FAILURE (emit (Perror ERR_FORK) s2)
           | (Child, s2) \<Rightarrow>
               (case argv_pipe command_frame of
                  Inl e \<Rightarrow> Faulted e s2
                | Inr argv \<Rightarrow>
                    (case do_execvp command_frame argv
                            (emit (Close (pipe_arr1 s2)) (emit (Dup2 (pipe_arr1 s2) 1) s2)) of
                       Inl left \<Rightarrow> left
                     | Inr s3 \<Rightarrow> Exited EXIT_FAILURE s3))
           | (Parent, s2) \<Rightarrow>
               Running ((emit Waitpid (emit (Close (pipe_arr1 s2)) s2))\<lparr>is_piped := True\<rparr>)))"

section \<open>The driver loop\<close>

text \<open>
  The release of a frame, as \<open>main\<close> writes it out in three places: the command and
  every stored token are freed, and so is each bucket. A bucket that \<open>parseInput\<close> has
  freed already (when the other one could not be allocated) is freed a second time.
\<close>

definition release :: "xcmf \<Rightarrow> fault option" where
  "release cmd =
     (case bucket (Args cmd) (Arg_Cnt cmd) of
        Inl e \<Rightarrow> Some e
      | Inr as \<Rightarrow>
          if Args cmd = Freed then Some InvalidFree
          else (case bucket (Opts cmd) (Opt_Cnt cmd) of
                  Inl e \<Rightarrow> Some e
                | Inr os \<Rightarrow> if Opts cmd = Freed then Some InvalidFree else None))"

text \<open>
  The body of the \<open>do\<close> loop of \<open>main\<close> after the parse, up to the release of the
  frame. The command of the frame is compared with \<open>cd\<close> and \<open>exit\<close> (a null command is
  read there). The builtin \<open>exit\<close> releases the frame, frees \<open>line\<close>, which by then
  is null or points past the first token into the buffer of \<open>getline\<close>, and returns 0.
  Every other frame goes to an executor chosen by the directive. On the parallel path
  \<open>main\<close> forks: the child runs the synchronous executor, releases the frame and exits,
  the parent jumps to the condition of the loop, and a failed fork is reported and
  leaves the loop by \<open>break\<close>.
\<close>

definition main_body :: "execution_directive_t \<Rightarrow> xcmf \<Rightarrow> shell \<Rightarrow> outcome" where
  "main_body directive cmd s =
     (case Command cmd of
        None \<Rightarrow> Faulted NullDeref s
      | Some c \<Rightarrow>
          if c = CMD_CD then changeDirectory cmd s
          else if c = CMD_EXIT then
            (let s1 = emit (Printf (''Exiting shell...'' @ [CHR 0x0A])) s
             in case release cmd of
                  Some e \<Rightarrow> Faulted e s1
                | None \<Rightarrow> if lineptr s1 \<noteq> None then Faulted InvalidFree s1 else Exited 0 s1)
          else if directive = PARALLEL then
            (case sys_fork s of
               (Child, s1) \<Rightarrow>
                 (case executeCommand cmd s1 of
                    Running s2 \<Rightarrow>
                      (case release cmd of
                         Some e \<Rightarrow> Faulted e s2
                       | None \<Rightarrow> Exited EXIT_SUCCESS s2)
                  | other \<Rightarrow> other)
             | (Parent, s1) \<Rightarrow> Continued s1
             | (ForkFail, s1) \<Rightarrow> Broke (emit (Perror ERR_FORK) s1))
          else if directive = PIPELINE then executeCommandPipe cmd s
          else executeCommand cmd s)"

lemma parseInput_cursor:
  assumes "parseInput failing cur = Inr (d, cmd, cur1)" and "cur \<noteq> None"
  shows "cursor_size cur1 < cursor_size cur"
proof -
  from assms(2) obtain ln where cur: "cur = Some ln" by auto
  obtain tok c where sep: "strsep cur = (tok, c)" by (cases "strsep cur")
  with cur obtain token where tok: "tok = Some token"
    by (auto simp: strsep_def split: if_splits)
  with sep have lt: "cursor_size c < cursor_size cur"
    by (simp add: strsep_token_smaller)
  show ?thesis
  proof (cases "allocated failing Block_args \<and> allocated failing Block_opts")
    case False
    with assms(1) cur sep tok have "cur1 = c"
      by (auto simp: parseInput_def Let_def malloc_bucket_def split: if_splits)
    with lt show ?thesis by simp
  next
    case True
    let ?cmd0 = "null_xcmf\<lparr>Command := strdup failing Copy_command token,
        Cmf_Len := of_nat (length token), Args := Block [], Opts := Block []\<rparr>"
    from True assms(1) cur sep tok
    have "parse_tokens failing ?cmd0 c = Inr (d, cmd, cur1)"
      by (simp add: parseInput_def Let_def malloc_bucket_def)
    then have "cursor_size cur1 \<le> cursor_size c"
      using parse_tokens_cursor [of failing ?cmd0 c "(d, cmd, cur1)"] by simp
    with lt show ?thesis by simp
  qed
qed

lemma parseInput_null_cursor: "parseInput failing None = Inr (EXCEPTION, null_xcmf, None)"
  by (simp add: parseInput_def)

lemma main_body_returns_Command:
  "main_body d cmd s = Running s1 \<or> main_body d cmd s = Continued s1 \<Longrightarrow> Command cmd \<noteq> None"
  by (cases "Command cmd") (auto simp: main_body_def)

text \<open>No dispatch assigns to \<open>line\<close>.\<close>

lemma lineptr_emit [simp]: "lineptr (emit e s) = lineptr s"
  by (simp add: emit_def)

lemma lineptr_sys_fork [simp]: "lineptr (snd (sys_fork s)) = lineptr s"
  by (simp add: sys_fork_def split: list.splits)

lemma lineptr_sys_pipe [simp]: "lineptr (snd (sys_pipe s)) = lineptr s"
  by (simp add: sys_pipe_def split: list.splits)

lemma lineptr_sys_chdir [simp]: "lineptr (snd (sys_chdir path s)) = lineptr s"
  by (simp add: sys_chdir_def split: option.splits)

lemma lineptr_pipeReset [simp]: "lineptr (pipeReset s) = lineptr s"
  by (simp add: pipeReset_def Let_def)

lemma lineptr_do_chdir:
  "do_chdir path s = Running s1 \<Longrightarrow> lineptr s1 = lineptr s"
  using lineptr_sys_chdir [of path s]
  by (cases "sys_chdir path s") (auto simp: do_chdir_def split: bool.splits)

lemma lineptr_changeDirectory:
  "changeDirectory cmd s = Running s1 \<Longrightarrow> lineptr s1 = lineptr s"
  by (auto simp: changeDirectory_def cd_home_def cd_join_def Let_def
           dest: lineptr_do_chdir
           split: if_splits block.splits list.splits option.splits)

lemma executeCommand_child_not_Running: "executeCommand_child cmd s \<noteq> Running s1"
  by (auto simp: executeCommand_child_def do_execvp_def
           split: outcome.splits sum.splits option.splits prod.splits bool.splits)

lemma executeCommand_child_not_Continued: "executeCommand_child cmd s \<noteq> Continued s1"
  by (auto simp: executeCommand_child_def do_execvp_def redirect_stdout_def
           split: outcome.splits sum.splits option.splits prod.splits bool.splits if_splits)

lemma executeCommand_not_Continued: "executeCommand cmd s \<noteq> Continued s1"
  using executeCommand_child_not_Continued [of cmd _ s1]
  by (cases "sys_fork s") (auto simp: executeCommand_def split: if_splits fork_result.splits)

lemma lineptr_executeCommand:
  "executeCommand cmd s = Running s1 \<Longrightarrow> lineptr s1 = lineptr s"
  using lineptr_sys_fork [of s] executeCommand_child_not_Running [of cmd _ s1]
  by (cases "sys_fork s") (auto simp: executeCommand_def split: if_splits fork_result.splits)

lemma lineptr_executeCommandPipe:
  assumes "executeCommandPipe cmd s = Running s1"
  shows "lineptr s1 = lineptr s"
proof -
  obtain r sa where p: "sys_pipe s = (r, sa)" by (cases "sys_pipe s")
  with assms obtain rd wr where r: "r = Some (rd, wr)"
    by (cases r) (auto simp: executeCommandPipe_def)
  obtain f sb where f: "sys_fork (sa\<lparr>pipe_arr0 := rd, pipe_arr1 := wr\<rparr>) = (f, sb)"
    by (cases "sys_fork (sa\<lparr>pipe_arr0 := rd, pipe_arr1 := wr\<rparr>)")
  have "lineptr sa = lineptr s" using lineptr_sys_pipe [of s] p by simp
  moreover have "lineptr sb = lineptr sa"
    using lineptr_sys_fork [of "sa\<lparr>pipe_arr0 := rd, pipe_arr1 := wr\<rparr>"] f by simp
  moreover from assms p r f have "lineptr s1 = lineptr sb"
    by (cases f)
       (auto simp: executeCommandPipe_def do_execvp_def
             split: sum.splits option.splits prod.splits bool.splits)
  ultimately show ?thesis by simp
qed

lemma executeCommandPipe_not_Continued: "executeCommandPipe cmd s \<noteq> Continued s1"
proof -
  obtain r sa where p: "sys_pipe s = (r, sa)" by (cases "sys_pipe s")
  show ?thesis
  proof (cases r)
    case None
    with p show ?thesis by (simp add: executeCommandPipe_def)
  next
    case (Some fds)
    obtain rd wr where fds: "fds = (rd, wr)" by (cases fds)
    obtain f sb where f: "sys_fork (sa\<lparr>pipe_arr0 := rd, pipe_arr1 := wr\<rparr>) = (f, sb)"
      by (cases "sys_fork (sa\<lparr>pipe_arr0 := rd, pipe_arr1 := wr\<rparr>)")
    with p Some fds show ?thesis
      by (cases f)
         (auto simp: executeCommandPipe_def do_execvp_def
               split: sum.splits option.splits prod.splits bool.splits)
  qed
qed

lemma lineptr_main_body:
  assumes "main_body d cmd s = Running s1 \<or> main_body d cmd s = Continued s1"
  shows "lineptr s1 = lineptr s"
proof -
  from assms obtain c where c: "Command cmd = Some c"
    using main_body_returns_Command [of d cmd s s1] by auto
  show ?thesis
  proof (cases "c = CMD_CD")
    case True
    with assms c have "changeDirectory cmd s = Running s1"
      by (auto simp: main_body_def changeDirectory_def cd_home_def cd_join_def do_chdir_def
                     Let_def
               split: if_splits block.splits list.splits option.splits prod.splits
                      bool.splits)
    then show ?thesis by (rule lineptr_changeDirectory)
  next
    case cd: False
    show ?thesis
    proof (cases "c = CMD_EXIT")
      case True
      with assms c cd show ?thesis
        by (auto simp: main_body_def Let_def split: option.splits if_splits)
    next
      case ex: False
      show ?thesis
      proof (cases "d = PARALLEL")
        case True
        obtain f sa where f: "sys_fork s = (f, sa)" by (cases "sys_fork s")
        then have "lineptr sa = lineptr s" using lineptr_sys_fork [of s] by simp
        with assms c cd ex True f show ?thesis
          using executeCommand_not_Continued [of cmd sa s1]
          by (cases f)
             (auto simp: main_body_def split: outcome.splits option.splits)
      next
        case False
        with c cd ex have eq: "main_body d cmd s =
            (if d = PIPELINE then executeCommandPipe cmd s else executeCommand cmd s)"
          by (simp add: main_body_def)
        show ?thesis
        proof (cases "d = PIPELINE")
          case True
          with assms eq have "executeCommandPipe cmd s = Running s1"
            using executeCommandPipe_not_Continued [of cmd s s1] by auto
          then show ?thesis by (rule lineptr_executeCommandPipe)
        next
          case False
          with assms eq have "executeCommand cmd s = Running s1"
            using executeCommand_not_Continued [of cmd s s1] by auto
          then show ?thesis by (rule lineptr_executeCommand)
        qed
      qed
    qed
  qed
qed

lemma lineptr_sys_heap [simp]: "lineptr (snd (sys_heap s)) = lineptr s"
  by (simp add: sys_heap_def split: list.splits)

lemma line_step_smaller:
  assumes "sys_heap s = (failing, s0)"
    and "parseInput failing (lineptr s0) = Inr (directive, cmd, line1)"
    and "main_body directive cmd (s0\<lparr>lineptr := line1\<rparr>) = Running s1
         \<or> main_body directive cmd (s0\<lparr>lineptr := line1\<rparr>) = Continued s1"
  shows "cursor_size (lineptr s1) < cursor_size (lineptr s)"
proof -
  from assms(3) have "Command cmd \<noteq> None" by (rule main_body_returns_Command)
  have "lineptr s0 \<noteq> None"
  proof
    assume "lineptr s0 = None"
    with assms(2) have "cmd = null_xcmf" by (simp add: parseInput_null_cursor)
    with \<open>Command cmd \<noteq> None\<close> show False by (simp add: null_xcmf_def)
  qed
  with assms(2) have "cursor_size line1 < cursor_size (lineptr s0)"
    by (rule parseInput_cursor)
  moreover have "lineptr s0 = lineptr s" using lineptr_sys_heap [of s] assms(1) by simp
  moreover have "lineptr s1 = line1" using lineptr_main_body [OF assms(3)] by simp
  ultimately show ?thesis by simp
qed

text \<open>
  The \<open>do\<close> loop of \<open>main\<close> on the line that \<open>line\<close> points to: parse a frame (which
  moves \<open>line\<close>), run the body, release the frame, and go on while the directive is
  neither \<open>TERMINATED\<close> nor \<open>EXCEPTION\<close>. \<open>Running\<close> is the loop left by its condition,
  \<open>Broke\<close> the loop left by \<open>break\<close>.
\<close>

function run_line :: "shell \<Rightarrow> outcome" where
  "run_line s =
     (case sys_heap s of
        (failing, s0) \<Rightarrow>
          (case parseInput failing (lineptr s0) of
             Inl e \<Rightarrow> Faulted e s0
           | Inr (directive, cmd, line1) \<Rightarrow>
               (case main_body directive cmd (s0\<lparr>lineptr := line1\<rparr>) of
                  Running s1 \<Rightarrow>
                    (case release cmd of
                       Some e \<Rightarrow> Faulted e s1
                     | None \<Rightarrow>
                         if directive \<noteq> TERMINATED \<and> directive \<noteq> EXCEPTION
                         then run_line s1 else Running s1)
                | Continued s1 \<Rightarrow>
                    if directive \<noteq> TERMINATED \<and> directive \<noteq> EXCEPTION
                    then run_line s1 else Running s1
                | other \<Rightarrow> other)))"
  by pat_completeness auto
termination
proof (relation "measure (\<lambda>s. cursor_size (lineptr s))", goal_cases)
  case 1
  show ?case by simp
next
  case 2
  then show ?case using line_step_smaller by (auto simp: prod_eq_iff)
next
  case 3
  then show ?case using line_step_smaller by (auto simp: prod_eq_iff)
qed

declare run_line.simps [simp del]









text \<open>The globals as the program starts, in a given environment.\<close>

definition initial :: "string \<Rightarrow> string option \<Rightarrow> (string \<times> string) list \<Rightarrow>
    fork_result list \<Rightarrow> shell" where
  "initial dir hm ds fs =
     \<lparr>is_piped = False, pipe_arr0 = - 1, pipe_arr1 = - 1, lineptr = None, cwd = dir,
      cwd_ok = True, home = hm, dirs = ds, heaps = [], forks = fs, pipes = [],
      opens = [], dup2s = [], execs = [], trace = []\<rparr>"

text \<open>The interpreter about to run the inner loop on a line.\<close>

definition on_line :: "string \<Rightarrow> shell \<Rightarrow> shell" where
  "on_line str s = s\<lparr>lineptr := Some str\<rparr>"

section \<open>Reference notions for the properties\<close>

text \<open>
  What \<open>cd\<close> is to do, in the words of the specification as amended: no target, no
  working directory to start from, or the path to change to. Without a first argument
  the target is the home directory, if there is one. With one, the working directory
  is asked for first, and the target is the working directory joined with \<open>/..\<close> for
  the argument \<open>..\<close> and with \<open>/\<close> and the argument otherwise, provided the joined path
  is shorter than \<open>MAX_PATH_LEN\<close>.
\<close>

datatype cd_plan = No_target | No_cwd | Target string

definition first_argument :: "xcmf \<Rightarrow> string option" where
  "first_argument command_frame =
     (if Arg_Cnt command_frame = 0 then None
      else (case Args command_frame of
              Block (Some arg # rest) \<Rightarrow> Some arg
            | _ \<Rightarrow> None))"

definition cd_target_spec :: "xcmf \<Rightarrow> shell \<Rightarrow> cd_plan" where
  "cd_target_spec command_frame s =
     (case first_argument command_frame of
        None \<Rightarrow> (case home s of None \<Rightarrow> No_target | Some dir \<Rightarrow> Target dir)
      | Some arg \<Rightarrow>
          (case sys_getcwd s of
             None \<Rightarrow> No_cwd
           | Some dir \<Rightarrow>
               (let joined = (if arg = ''..'' then dir @ ''/..'' else dir @ ''/'' @ arg)
                in if length joined < MAX_PATH_LEN then Target joined else No_target)))"

text \<open>The frame of \<open>cd arg\<close>, and the frame of a command without arguments.\<close>

definition cd_frame :: "string \<Rightarrow> xcmf" where
  "cd_frame arg =
     \<lparr>Command = Some ''cd'', Cmf_Len = 2, Args = Block [Some arg], Arg_Cnt = 1,
      Opts = Block [], Opt_Cnt = 0, redirection_file = None\<rparr>"


text \<open>
  A frame as the token loop keeps it: the command is set and each bucket is a live
  block that holds as many slots as its counter says.
\<close>

definition frame_ok :: "xcmf \<Rightarrow> bool" where
  "frame_ok cmd \<longleftrightarrow>
     Command cmd \<noteq> None
     \<and> (\<exists>as. Args cmd = Block as \<and> unat (Arg_Cnt cmd) = length as)
     \<and> (\<exists>os. Opts cmd = Block os \<and> unat (Opt_Cnt cmd) = length os)"




text \<open>
  A line as the sequence of its tokens, joined by single spaces, and the cursor that
  holds the tokens still to be read (null when none is left).
\<close>

fun line_of :: "string list \<Rightarrow> string" where
  "line_of [] = []"
| "line_of [t] = t"
| "line_of (t # u # ts) = t @ '' '' @ line_of (u # ts)"

definition cursor_of :: "string list \<Rightarrow> string option" where
  "cursor_of ts = (if ts = [] then None else Some (line_of ts))"

section \<open>Auxiliary facts\<close>

lemma takeWhile_absent: "c \<notin> set xs \<Longrightarrow> takeWhile (\<lambda>x. x \<noteq> c) xs = xs"
  by (induction xs) auto

lemma store_arg_Command:
  "store_arg failing token cmd = Inr cmd1 \<Longrightarrow> Command cmd1 = Command cmd"
  by (auto simp: store_arg_def split: block.splits if_splits)

lemma store_opt_Command:
  "store_opt failing token cmd = Inr cmd1 \<Longrightarrow> Command cmd1 = Command cmd"
  by (auto simp: store_opt_def split: block.splits if_splits)

lemma scan_command_result:
  assumes "scan_command failing cmd = Inr (d, cmd1)"
  shows "(d = TERMINATED \<or> d = EXCEPTION)
    \<and> (d = EXCEPTION \<longrightarrow> \<not> allocated failing Copy_redirection)
    \<and> Command cmd1 = map_option (takeWhile (\<lambda>x. x \<noteq> CHR ''>'')) (Command cmd)"
  using assms
  by (auto simp: scan_command_def Let_def strdup_def takeWhile_absent
           split: option.splits if_splits)

lemma parse_tokens_Command:
  "parse_tokens failing cmd cur = Inr (d, cmd', c) \<Longrightarrow>
   d \<noteq> INIT
   \<and> (d = EXCEPTION \<longrightarrow> \<not> allocated failing Copy_redirection)
   \<and> Command cmd' =
       (if d = TERMINATED \<or> d = EXCEPTION
        then map_option (takeWhile (\<lambda>x. x \<noteq> CHR ''>'')) (Command cmd)
        else Command cmd)"
proof (induction cmd cur rule: parse_tokens_induct [where failing = failing])
  case (End cmd cur c1)
  then show ?case
    using scan_command_result [of failing cmd d cmd']
    by (auto split: sum.splits)
next
  case (Control cmd cur token c1 d0)
  then show ?case using control_directive_Some [of token d0] by auto
next
  case (Redirection cmd cur c1 cmd1 target c2)
  then show ?case by (simp add: store_arg_Command)
next
  case (Option cmd cur token c1 cmd1)
  then show ?case by (simp add: store_opt_Command)
next
  case (Argument cmd cur token c1 cmd1)
  then show ?case by (simp add: store_arg_Command)
qed simp_all

lemma strsep_Some_token:
  "fst (strsep (Some ln)) = Some (takeWhile (\<lambda>c. c \<noteq> CHR '' '') ln)"
  by (auto simp: strsep_def takeWhile_absent)

lemma do_chdir_eq:
  "do_chdir t s =
     (case map_of (dirs s) t of
        Some d \<Rightarrow> Running (emit (Chdir t True) (s\<lparr>cwd := d\<rparr>))
      | None \<Rightarrow> Running (emit (Perror ERR_CHDIR) (emit (Chdir t False) s)))"
  by (simp add: do_chdir_def sys_chdir_def split: option.splits)






section \<open>Lines that end with a control operator\<close>

lemma strsep_cursor_of_Nil: "strsep (cursor_of []) = (None, None)"
  by (simp add: cursor_of_def strsep_def)




lemma frame_ok_redirection [simp]:
  "frame_ok (cmd\<lparr>redirection_file := target\<rparr>) = frame_ok cmd"
  by (simp add: frame_ok_def)






















section \<open>Properties of the parser\<close>

text \<open>
  C4. \<open>ls > out.txt\<close> parses to the command \<open>ls\<close> with the redirection file
  \<open>out.txt\<close>, and \<open>ls>out.txt\<close> parses to the same command and the same redirection
  file, found by the scan of the command token; both calls return \<open>TERMINATED\<close>.
\<close>

theorem parse_redirection_examples:
  "parseInput [] (Some ''ls > out.txt'') =
     Inr (TERMINATED,
          \<lparr>Command = Some ''ls'', Cmf_Len = 2, Args = Block [Some ''>''], Arg_Cnt = 1,
           Opts = Block [], Opt_Cnt = 0, redirection_file = Some ''out.txt''\<rparr>, None)
   \<and> parseInput [] (Some ''ls>out.txt'') =
     Inr (TERMINATED,
          \<lparr>Command = Some ''ls'', Cmf_Len = 10, Args = Block [], Arg_Cnt = 0,
           Opts = Block [], Opt_Cnt = 0, redirection_file = Some ''out.txt''\<rparr>, None)
   \<and> scan_command []
         \<lparr>Command = Some ''ls>out.txt'', Cmf_Len = 10, Args = Block [], Arg_Cnt = 0,
          Opts = Block [], Opt_Cnt = 0, redirection_file = None\<rparr> =
     Inr (TERMINATED,
          \<lparr>Command = Some ''ls'', Cmf_Len = 10, Args = Block [], Arg_Cnt = 0,
           Opts = Block [], Opt_Cnt = 0, redirection_file = Some ''out.txt''\<rparr>)"
  by code_simp

text \<open>
  C2, as stated, fails on the empty string: the cursor is not null, \<open>strsep\<close> returns the
  empty token, and the call returns \<open>TERMINATED\<close> with the command set to the empty
  string and both buckets allocated.
\<close>

theorem parse_empty_string:
  "parseInput [] (Some []) =
     Inr (TERMINATED,
          \<lparr>Command = Some [], Cmf_Len = 0, Args = Block [], Arg_Cnt = 0,
           Opts = Block [], Opt_Cnt = 0, redirection_file = None\<rparr>, None)"
  by code_simp

text \<open>
  C2, amended. On a null cursor \<open>parseInput\<close> returns \<open>EXCEPTION\<close> with every field of the
  frame null or zero, whatever can be allocated. On a cursor that is not null, the
  empty string included, \<open>strsep\<close> returns a token and the command is set from it,
  unless its copy cannot be allocated: it is the first token, cut at an embedded \<open>>\<close>
  when the token loop has run to its end. On such a cursor \<open>EXCEPTION\<close> is returned
  only after a failed allocation, of a bucket or of the copy of an embedded redirection
  file. The empty string with every allocation succeeding gives \<open>TERMINATED\<close> and the
  empty command.
\<close>

theorem parseInput_exception_only_null_cursor:
  "parseInput failing None = Inr (EXCEPTION, null_xcmf, None)
   \<and> (parseInput failing (Some ln) = Inr (d, cmd, c) \<longrightarrow>
        Command cmd =
          (if allocated failing Copy_command
           then Some (if d = PARALLEL \<or> d = SEQUENTIAL \<or> d = PIPELINE
                         \<or> \<not> allocated failing Block_args \<or> \<not> allocated failing Block_opts
                      then takeWhile (\<lambda>x. x \<noteq> CHR '' '') ln
                      else takeWhile (\<lambda>x. x \<noteq> CHR ''>'')
                             (takeWhile (\<lambda>x. x \<noteq> CHR '' '') ln))
           else None)
        \<and> (d = EXCEPTION \<longrightarrow>
              \<not> allocated failing Block_args \<or> \<not> allocated failing Block_opts
              \<or> \<not> allocated failing Copy_redirection))
   \<and> parseInput [] (Some []) =
        Inr (TERMINATED, null_xcmf\<lparr>Command := Some [], Args := Block [], Opts := Block []\<rparr>,
             None)"
proof (intro conjI impI)
  show "parseInput failing None = Inr (EXCEPTION, null_xcmf, None)"
    by (simp add: parseInput_def)
next
  show "parseInput [] (Some []) =
        Inr (TERMINATED, null_xcmf\<lparr>Command := Some [], Args := Block [], Opts := Block []\<rparr>,
             None)"
    by code_simp
next
  assume res: "parseInput failing (Some ln) = Inr (d, cmd, c)"
  let ?tok = "takeWhile (\<lambda>c. c \<noteq> CHR '' '') ln"
  obtain c1 where sep: "strsep (Some ln) = (Some ?tok, c1)"
    using strsep_Some_token [of ln] by (cases "strsep (Some ln)") simp
  have both: "Command cmd =
          (if allocated failing Copy_command
           then Some (if d = PARALLEL \<or> d = SEQUENTIAL \<or> d = PIPELINE
                         \<or> \<not> allocated failing Block_args \<or> \<not> allocated failing Block_opts
                      then ?tok else takeWhile (\<lambda>x. x \<noteq> CHR ''>'') ?tok)
           else None)
        \<and> (d = EXCEPTION \<longrightarrow>
              \<not> allocated failing Block_args \<or> \<not> allocated failing Block_opts
              \<or> \<not> allocated failing Copy_redirection)"
  proof (cases "allocated failing Block_args \<and> allocated failing Block_opts")
    case False
    with res sep show ?thesis
      by (auto simp: parseInput_def Let_def strdup_def malloc_bucket_def split: if_splits)
  next
    case True
    let ?cmd0 = "null_xcmf\<lparr>Command := strdup failing Copy_command ?tok,
        Cmf_Len := of_nat (length ?tok), Args := Block [], Opts := Block []\<rparr>"
    from True res sep have "parse_tokens failing ?cmd0 c1 = Inr (d, cmd, c)"
      by (simp add: parseInput_def Let_def malloc_bucket_def)
    from parse_tokens_Command [OF this] True show ?thesis
      by (cases d) (auto simp: strdup_def)
  qed
  then show "Command cmd =
          (if allocated failing Copy_command
           then Some (if d = PARALLEL \<or> d = SEQUENTIAL \<or> d = PIPELINE
                         \<or> \<not> allocated failing Block_args \<or> \<not> allocated failing Block_opts
                      then takeWhile (\<lambda>x. x \<noteq> CHR '' '') ln
                      else takeWhile (\<lambda>x. x \<noteq> CHR ''>'')
                             (takeWhile (\<lambda>x. x \<noteq> CHR '' '') ln))
           else None)" by simp
  assume "d = EXCEPTION"
  with both show "\<not> allocated failing Block_args \<or> \<not> allocated failing Block_opts
              \<or> \<not> allocated failing Copy_redirection" by simp
qed

theorem parseInput_exception_only_null_cursor_witness:
  "parseInput [Copy_redirection] (Some ''ls>out.txt'') =
     Inr (EXCEPTION,
          \<lparr>Command = Some ''ls'', Cmf_Len = 10, Args = Block [], Arg_Cnt = 0,
           Opts = Block [], Opt_Cnt = 0, redirection_file = None\<rparr>, None)
   \<and> Command \<lparr>Command = Some ''ls'', Cmf_Len = 10, Args = Block [], Arg_Cnt = 0,
           Opts = Block [], Opt_Cnt = 0, redirection_file = None\<rparr> = Some ''ls''
   \<and> \<not> allocated [Copy_redirection] Copy_redirection"
proof -
  have p: "parseInput [Copy_redirection] (Some ''ls>out.txt'') =
     Inr (EXCEPTION,
          \<lparr>Command = Some ''ls'', Cmf_Len = 10, Args = Block [], Arg_Cnt = 0,
           Opts = Block [], Opt_Cnt = 0, redirection_file = None\<rparr>, None)"
    by code_simp
  from parseInput_exception_only_null_cursor [of "[Copy_redirection]" "''ls>out.txt''"
      EXCEPTION
      "\<lparr>Command = Some ''ls'', Cmf_Len = 10, Args = Block [], Arg_Cnt = 0,
           Opts = Block [], Opt_Cnt = 0, redirection_file = None\<rparr>" None] p
  show ?thesis by (simp add: allocated_def)
qed

text \<open>
  C8. A line with eleven positional arguments: the eleventh store goes to slot 10 of
  the block of \<open>ARGSMAX = 10\<close> slots. Nothing in \<open>parseInput\<close> compares the counter
  with the capacity, so the store is outside the block; the model reports it as the
  fault \<open>ArgsOverflow\<close>. No token is dropped and no truncation takes place.
\<close>

theorem parse_eleven_arguments:
  "parseInput [] (Some ''c 1 2 3 4 5 6 7 8 9 10 11'') = Inl ArgsOverflow"
  by code_simp




section \<open>Properties of the builtin \<open>cd\<close>\<close>

text \<open>
  C3, as stated, fails when the joined path does not fit the buffer of \<open>MAX_PATH_LEN\<close>
  bytes: from \<open>/\<close>, with an argument of 50000 characters and no such directory, no
  \<open>chdir\<close> is attempted and no error is reported; the state is untouched.
\<close>

theorem cd_long_argument_not_attempted:
  "changeDirectory (cd_frame (replicate 50000 CHR ''a'')) (initial ''/'' None [] []) =
     Running (initial ''/'' None [] [])"
proof -
  have "length (replicate 50000 CHR ''a'') \<noteq> length ''..''" by simp
  then have "replicate 50000 CHR ''a'' \<noteq> ''..''" by metis
  then show ?thesis
    by (simp add: changeDirectory_def cd_join_def sys_getcwd_def MAX_PATH_LEN_def
          initial_def cd_frame_def)
qed

text \<open>
  C3, amended. For every \<open>cd\<close> frame (no argument, or a bucket that holds its first
  slot), \<open>changeDirectory\<close> does what the plan of the specification says. Without a
  first argument the target is the home directory, and nothing happens when there is
  none. With a first argument the working directory is asked for: when that fails,
  the failure is reported and nothing else happens; otherwise the target is the
  literal join of the working directory with \<open>/..\<close> or with \<open>/\<close> and the argument, an
  absolute argument included, and when the joined path is not shorter than
  \<open>MAX_PATH_LEN\<close> nothing is attempted and nothing is reported. A target is given to
  \<open>chdir\<close>; when that fails an error is reported and the working directory is
  unchanged. In every case the function returns to the interpreter.
\<close>

theorem changeDirectory_target:
  assumes "Arg_Cnt command_frame = 0 \<or> (\<exists>slot rest. Args command_frame = Block (slot # rest))"
  shows "changeDirectory command_frame s =
     (case cd_target_spec command_frame s of
        No_target \<Rightarrow> Running s
      | No_cwd \<Rightarrow> Running (emit (Perror ERR_GETCWD) s)
      | Target t \<Rightarrow>
          (case map_of (dirs s) t of
             Some d \<Rightarrow> Running (emit (Chdir t True) (s\<lparr>cwd := d\<rparr>))
           | None \<Rightarrow> Running (emit (Perror ERR_CHDIR) (emit (Chdir t False) s))))"
proof (cases "Arg_Cnt command_frame = 0")
  case True
  then show ?thesis
    by (simp add: changeDirectory_def cd_target_spec_def first_argument_def cd_home_def
          do_chdir_eq split: option.splits)
next
  case False
  with assms obtain slot rest where a: "Args command_frame = Block (slot # rest)" by auto
  show ?thesis
  proof (cases slot)
    case None
    with False a show ?thesis
      by (simp add: changeDirectory_def cd_target_spec_def first_argument_def cd_home_def
            do_chdir_eq split: option.splits)
  next
    case (Some arg)
    show ?thesis
    proof (cases "sys_getcwd s")
      case None
      with False a Some show ?thesis
        by (simp add: changeDirectory_def cd_target_spec_def first_argument_def cd_join_def)
    next
      case (Some dir)
      with False a \<open>slot = Some arg\<close> show ?thesis
        by (auto simp: changeDirectory_def cd_target_spec_def first_argument_def cd_join_def
              do_chdir_eq Let_def split: option.splits)
    qed
  qed
qed

theorem changeDirectory_target_witness:
  "(Arg_Cnt (cd_frame ''..'') = 0 \<or> (\<exists>slot rest. Args (cd_frame ''..'') = Block (slot # rest)))
   \<and> changeDirectory (cd_frame ''..'') (initial ''/a/b'' None [] []) =
       Running (emit (Perror ERR_CHDIR)
                  (emit (Chdir ''/a/b/..'' False) (initial ''/a/b'' None [] [])))
   \<and> changeDirectory (cd_frame ''/etc'') (initial ''/a/b'' None [(''/a/b//etc'', ''/etc'')] []) =
       Running (emit (Chdir ''/a/b//etc'' True)
                  ((initial ''/a/b'' None [(''/a/b//etc'', ''/etc'')] [])\<lparr>cwd := ''/etc''\<rparr>))
   \<and> changeDirectory (cd_frame ''x'') ((initial ''/a/b'' None [] [])\<lparr>cwd_ok := False\<rparr>) =
       Running (emit (Perror ERR_GETCWD) ((initial ''/a/b'' None [] [])\<lparr>cwd_ok := False\<rparr>))"
proof -
  have h: "\<And>arg. Arg_Cnt (cd_frame arg) = 0 \<or>
      (\<exists>slot rest. Args (cd_frame arg) = Block (slot # rest))"
    by (simp add: cd_frame_def)
  show ?thesis
    using h [of "''..''"] changeDirectory_target [OF h [of "''..''"]]
      changeDirectory_target [OF h [of "''/etc''"]] changeDirectory_target [OF h [of "''x''"]]
    by (simp add: cd_target_spec_def first_argument_def sys_getcwd_def cd_frame_def
          initial_def MAX_PATH_LEN_def)
qed

section \<open>Properties of the pipe relay and the executors\<close>

text \<open>
  C6. \<open>pipeReset\<close> is idempotent: a second call in a row changes nothing, closes no
  descriptor (the trace of calls stays as the first call left it), and after a call the
  relay is idle with both slots at \<open>-1\<close>.
\<close>

theorem pipeReset_idempotent:
  "pipeReset (pipeReset s) = pipeReset s
   \<and> trace (pipeReset (pipeReset s)) = trace (pipeReset s)
   \<and> \<not> is_piped (pipeReset s)
   \<and> pipe_arr0 (pipeReset s) = - 1 \<and> pipe_arr1 (pipeReset s) = - 1"
  by (simp add: pipeReset_def emit_def Let_def)

text \<open>
  C10. On a frame whose command is null or the empty string \<open>executeCommand\<close> returns at
  once: the state is the one it was given, with no \<open>fork\<close>, no message and no call on
  the relay in the trace.
\<close>

theorem executeCommand_empty_command:
  "Command command_frame = None \<or> Command command_frame = Some [] \<Longrightarrow>
   executeCommand command_frame s = Running s"
  by (auto simp: executeCommand_def)

theorem executeCommand_empty_command_witness:
  "(Command null_xcmf = None \<or> Command null_xcmf = Some [])
   \<and> executeCommand null_xcmf (initial ''/'' None [] []) = Running (initial ''/'' None [] [])"
  using executeCommand_empty_command [of null_xcmf "initial ''/'' None [] []"]
  by (simp add: null_xcmf_def)

text \<open>
  The argv of a frame whose buckets hold as many copied tokens as their counters say,
  as the parser builds it when every copy is allocated: only the synchronous executor
  stops at the redirection operator.
\<close>

lemma bucket_filled: "unat cnt = length xs \<Longrightarrow> bucket (Block xs) cnt = Inr xs"
  by (auto simp: bucket_def unat_eq_0)

lemma args_until_redirection_copies:
  "args_until_redirection (map Some as) =
     Inr (map Some (takeWhile (\<lambda>a. a \<noteq> REDIRECTION_TOK) as))"
  by (induction as) simp_all

lemma c_argv_copies: "c_argv (map Some xs) = xs"
  by (simp add: c_argv_def takeWhile_eq_all_conv [THEN iffD2] comp_def)

lemma argv_of_frame:
  assumes "Command f = Some c" "Opts f = Block (map Some os)" "Args f = Block (map Some as)"
    and "unat (Opt_Cnt f) = length os" "unat (Arg_Cnt f) = length as"
  shows "map_sum id c_argv (argv_sync f) =
           Inr (c # os @ takeWhile (\<lambda>a. a \<noteq> REDIRECTION_TOK) as)"
    and "map_sum id c_argv (argv_pipe f) = Inr (c # os @ as)"
proof -
  have b: "bucket (Opts f) (Opt_Cnt f) = Inr (map Some os)"
    "bucket (Args f) (Arg_Cnt f) = Inr (map Some as)"
    using assms by (simp_all add: bucket_filled)
  have "argv_sync f =
      Inr (map Some (c # os @ takeWhile (\<lambda>a. a \<noteq> REDIRECTION_TOK) as))"
    using assms(1) b by (simp add: argv_sync_def args_until_redirection_copies)
  then show "map_sum id c_argv (argv_sync f) =
           Inr (c # os @ takeWhile (\<lambda>a. a \<noteq> REDIRECTION_TOK) as)"
    using c_argv_copies [of "c # os @ takeWhile (\<lambda>a. a \<noteq> REDIRECTION_TOK) as"] by simp
  have "argv_pipe f = Inr (map Some (c # os @ as))"
    using assms(1) b by (simp add: argv_pipe_def)
  then show "map_sum id c_argv (argv_pipe f) = Inr (c # os @ as)"
    using c_argv_copies [of "c # os @ as"] by simp
qed

text \<open>
  C1. The line \<open>ls > out.txt | wc\<close>: the first frame has the directive \<open>PIPELINE\<close> and
  the arguments \<open>[>]\<close>. Followed into the child of \<open>executeCommandPipe\<close>, the argv given
  to \<open>execvp\<close> is \<open>[ls, >]\<close>: the pipeline executor copies every argument and does not
  stop at the redirection operator. The child of \<open>executeCommand\<close> on \<open>ls > out.txt\<close>
  gets \<open>[ls]\<close>, as the specification says.
\<close>

theorem pipeline_argv_keeps_redirection:
  "run_line (on_line ''ls > out.txt | wc'' (initial ''/'' None [] [Child])) =
     Replaced ''ls'' [''ls'', ''>'']
       ((initial ''/'' None [] [])\<lparr>pipe_arr0 := 3, pipe_arr1 := 4, lineptr := Some ''wc'',
          trace := [Pipe (Some (3, 4)), Fork Child, Dup2 4 1, Close 4]\<rparr>)
   \<and> run_line (on_line ''ls > out.txt'' (initial ''/'' None [] [Child])) =
     Replaced ''ls'' [''ls'']
       ((initial ''/'' None [] [])\<lparr>
          trace := [Fork Child, Open_file ''out.txt'' 3, Dup2 3 1, Close 3]\<rparr>)"
  by code_simp







end
